theory Spec2Isabelle
  imports Main "HOL-Library.Multiset"
begin

section \<open>The wallet of electra-js: data model\<close>

text \<open>
  This theory embeds the class \<open>Wallet\<close> of \<^verbatim>\<open>src/wallet/index.ts\<close>.
  Every method becomes a function that takes the wallet (the private fields of the
  instance) and returns its outcome together with the wallet it leaves behind; a
  \<^verbatim>\<open>throw\<close> is the left injection of a sum.

  Objects are modelled by value: the address objects held by one wallet are taken to
  be pairwise distinct objects, so that a write to one of them is a write to one entry.
\<close>

subsection \<open>Errors\<close>

text \<open>
  The class throws \<^verbatim>\<open>new Error(message)\<close> at a fixed number of places; each place is a
  constructor. An error thrown by a collaborator (the key derivation, the cipher, the
  remote node, the balance service) is rethrown as it is: \<open>External\<close> carries it.
  \<open>TypeError\<close> is what JavaScript raises when a property of \<^verbatim>\<open>undefined\<close> is read.
\<close>

type_synonym thrown = string

datatype error =
    AddressesNotReady
  | AllAddressesNotReady
  | RandomAddressesNotReady
  | IsHDNotReady
  | IsLockedNotReady
  | MnemonicNotReady
  | MnemonicUndefined
  | TransactionsNotReady
  | GenerateOnReady
  | GenerateInvalidMnemonic
  | LockNotReady
  | UnlockNotReady
  | ExportNotReady
  | ExportUnlockedNotUnsafe
  | ExportLockedUnsafe
  | ImportMasterNodeExists
  | ImportCipheredWithoutPassphrase
  | ImportAnotherMasterNode
  | ResetOnEmpty
  | GetBalanceOnEmpty
  | GetBalanceForeignAddress
  | TypeError
  | External thrown

subsection \<open>Addresses, wallet data, settings\<close>

text \<open>
  \<open>Address\<close> is what the key derivation returns; \<open>WalletAddress\<close> adds the label
  (\<^verbatim>\<open>null\<close> is \<open>None\<close>). Keys and hashes are strings.
\<close>

record Address =
  hash :: string
  isCiphered :: bool
  isHD :: bool
  privateKey :: string

record WalletAddress = Address +
  label :: "string option"

datatype WalletState = EMPTY | READY

record WalletData =
  chainsCount :: nat
  masterNodeAddress :: "WalletAddress option"
  randomAddresses :: "WalletAddress list"

record RpcAuth =
  username :: string
  password :: string

record Rpc =
  auth :: RpcAuth
  uri :: string

record Settings =
  rpcServerUri :: "string option"
  rpcServerAuth :: "RpcAuth option"

text \<open>
  The private fields of a \<open>Wallet\<close> instance, under the names of the source. The
  transaction records are opaque to the class; their type is a parameter.
\<close>

record 'tx Wallet =
  ADDRESSES :: "WalletAddress list"
  RANDOM_ADDRESSES :: "WalletAddress list"
  IS_LOCKED :: bool
  MASTER_NODE_ADDRESS :: "WalletAddress option"
  MNEMONIC :: "string option"
  rpc :: "Rpc option"
  STATE :: WalletState
  TRANSACTIONS :: "'tx list"

definition ONE_YEAR_IN_SECONDS :: int where
  "ONE_YEAR_IN_SECONDS = 60 * 60 * 24 * 365"

definition WALLET_INDEX :: int where
  "WALLET_INDEX = 0"

subsection \<open>Collaborators\<close>

text \<open>
  The modules \<^verbatim>\<open>libs/electra\<close>, \<^verbatim>\<open>libs/crypto\<close> and \<^verbatim>\<open>web-services\<close> are called by the
  class and are parameters here. Each call either throws or returns.
  \<open>getRandomMnemonic\<close> takes no argument: the field is the outcome of the call.
\<close>

record Electra =
  validateMnemonic :: "string \<Rightarrow> bool"
  getRandomMnemonic :: "thrown + string"
  getMasterNodeAddressFromMnemonic :: "string \<Rightarrow> string option \<Rightarrow> thrown + Address"
  getDerivedChainFromMasterNodePrivateKey :: "string \<Rightarrow> int \<Rightarrow> int \<Rightarrow> thrown + Address"
  getAddressHashFromPrivateKey :: "string \<Rightarrow> thrown + string"

record Crypto =
  cipherPrivateKey :: "string \<Rightarrow> string \<Rightarrow> thrown + string"
  decipherPrivateKey :: "string \<Rightarrow> string \<Rightarrow> thrown + string"

text \<open>
  The remote node, as the wallet sees it through \<^verbatim>\<open>tryCatch\<close>: the error caught, if any.
\<close>

record RemoteNode =
  rpcLock :: "Rpc \<Rightarrow> thrown option"
  rpcUnlock :: "Rpc \<Rightarrow> string \<Rightarrow> int \<Rightarrow> bool \<Rightarrow> thrown option"

section \<open>The wallet: construction and accessors\<close>

text \<open>The field initialisers of the class, before the constructor body runs.\<close>

definition initial :: "'tx Wallet" where
  "initial = \<lparr>ADDRESSES = [], RANDOM_ADDRESSES = [], IS_LOCKED = False,
     MASTER_NODE_ADDRESS = None, MNEMONIC = None, rpc = None, STATE = EMPTY,
     TRANSACTIONS = []\<rparr>"

definition constructor :: "Settings \<Rightarrow> 'tx Wallet" where
  "constructor settings =
     (case (rpcServerUri settings, rpcServerAuth settings) of
        (Some u, Some a) \<Rightarrow> initial\<lparr>rpc := Some \<lparr>auth = a, uri = u\<rparr>, STATE := READY\<rparr>
      | _ \<Rightarrow> initial)"

definition wallet_state :: "'tx Wallet \<Rightarrow> WalletState" where
  "wallet_state w = STATE w"

definition wallet_addresses :: "'tx Wallet \<Rightarrow> error + WalletAddress list" where
  "wallet_addresses w =
     (if STATE w \<noteq> READY then Inl AddressesNotReady else Inr (ADDRESSES w))"

definition wallet_randomAddresses :: "'tx Wallet \<Rightarrow> error + WalletAddress list" where
  "wallet_randomAddresses w =
     (if STATE w \<noteq> READY then Inl RandomAddressesNotReady else Inr (RANDOM_ADDRESSES w))"

definition wallet_allAddresses :: "'tx Wallet \<Rightarrow> error + WalletAddress list" where
  "wallet_allAddresses w =
     (if STATE w \<noteq> READY then Inl AllAddressesNotReady
      else case wallet_addresses w of
          Inl e \<Rightarrow> Inl e
        | Inr hd_addresses \<Rightarrow>
            (case wallet_randomAddresses w of
               Inl e \<Rightarrow> Inl e
             | Inr random_addresses \<Rightarrow> Inr (hd_addresses @ random_addresses)))"

definition wallet_isHD :: "'tx Wallet \<Rightarrow> error + bool" where
  "wallet_isHD w =
     (if STATE w \<noteq> READY then Inl IsHDNotReady
      else Inr (MASTER_NODE_ADDRESS w \<noteq> None))"

definition wallet_isLocked :: "'tx Wallet \<Rightarrow> error + bool" where
  "wallet_isLocked w =
     (if STATE w \<noteq> READY then Inl IsLockedNotReady else Inr (IS_LOCKED w))"

definition wallet_mnemonic :: "'tx Wallet \<Rightarrow> error + string" where
  "wallet_mnemonic w =
     (if STATE w \<noteq> READY then Inl MnemonicNotReady
      else case MNEMONIC w of None \<Rightarrow> Inl MnemonicUndefined | Some m \<Rightarrow> Inr m)"

definition wallet_transactions :: "'tx Wallet \<Rightarrow> error + 'tx list" where
  "wallet_transactions w =
     (if STATE w \<noteq> READY then Inl TransactionsNotReady else Inr (TRANSACTIONS w))"

section \<open>reset and export\<close>

definition reset :: "'tx Wallet \<Rightarrow> (error + unit) \<times> 'tx Wallet" where
  "reset w =
     (if STATE w = EMPTY then (Inl ResetOnEmpty, w)
      else (Inr (),
            w\<lparr>MASTER_NODE_ADDRESS := None, MNEMONIC := None, ADDRESSES := [],
              RANDOM_ADDRESSES := [], STATE := EMPTY, TRANSACTIONS := []\<rparr>))"

definition export :: "bool \<Rightarrow> 'tx Wallet \<Rightarrow> error + WalletData" where
  "export unsafe w =
     (if STATE w \<noteq> READY then Inl ExportNotReady
      else if \<not> IS_LOCKED w \<and> \<not> unsafe then Inl ExportUnlockedNotUnsafe
      else if IS_LOCKED w \<and> unsafe then Inl ExportLockedUnsafe
      else Inr \<lparr>chainsCount = length (ADDRESSES w),
                masterNodeAddress = MASTER_NODE_ADDRESS w,
                randomAddresses = RANDOM_ADDRESSES w\<rparr>)"

section \<open>lock and unlock\<close>

text \<open>
  \<^verbatim>\<open>Array.prototype.map\<close> with a callback that writes to the element it is given and
  may throw: the elements before the throwing one have been written, the others are as
  they were. The first component is the error thrown, if any.
\<close>

fun map_in_place ::
  "(WalletAddress \<Rightarrow> thrown + WalletAddress) \<Rightarrow> WalletAddress list
    \<Rightarrow> thrown option \<times> WalletAddress list" where
  "map_in_place f [] = (None, [])"
| "map_in_place f (a # as) =
     (case f a of
        Inl e \<Rightarrow> (Some e, a # as)
      | Inr a' \<Rightarrow> (case map_in_place f as of (r, as') \<Rightarrow> (r, a' # as')))"

text \<open>The callbacks of \<open>lock\<close> and \<open>unlock\<close>: only the private key is assigned.\<close>

definition cipherAddress :: "Crypto \<Rightarrow> string \<Rightarrow> WalletAddress \<Rightarrow> thrown + WalletAddress" where
  "cipherAddress cr passphrase address =
     (if \<not> isCiphered address then
        (case cipherPrivateKey cr (privateKey address) passphrase of
           Inl e \<Rightarrow> Inl e
         | Inr k \<Rightarrow> Inr (address\<lparr>privateKey := k\<rparr>))
      else Inr address)"

definition decipherAddress :: "Crypto \<Rightarrow> string \<Rightarrow> WalletAddress \<Rightarrow> thrown + WalletAddress" where
  "decipherAddress cr passphrase address =
     (if isCiphered address then
        (case decipherPrivateKey cr (privateKey address) passphrase of
           Inl e \<Rightarrow> Inl e
         | Inr k \<Rightarrow> Inr (address\<lparr>privateKey := k\<rparr>))
      else Inr address)"

text \<open>
  The \<^verbatim>\<open>try\<close> block shared by the local paths of \<open>lock\<close> and \<open>unlock\<close>: the master
  node address, then the HD addresses, then the random addresses. An error leaves the
  writes made so far in place.
\<close>

definition eachKey ::
  "(WalletAddress \<Rightarrow> thrown + WalletAddress) \<Rightarrow> 'tx Wallet \<Rightarrow> thrown option \<times> 'tx Wallet" where
  "eachKey f w =
     (case (case MASTER_NODE_ADDRESS w of
              None \<Rightarrow> Inr None
            | Some m \<Rightarrow> (case f m of Inl e \<Rightarrow> Inl e | Inr m' \<Rightarrow> Inr (Some m'))) of
        Inl e \<Rightarrow> (Some e, w)
      | Inr master \<Rightarrow>
          (case map_in_place f (ADDRESSES w) of
             (Some e, as) \<Rightarrow> (Some e, w\<lparr>MASTER_NODE_ADDRESS := master, ADDRESSES := as\<rparr>)
           | (None, as) \<Rightarrow>
               (case map_in_place f (RANDOM_ADDRESSES w) of
                  (r, rs) \<Rightarrow>
                    (r, w\<lparr>MASTER_NODE_ADDRESS := master, ADDRESSES := as,
                          RANDOM_ADDRESSES := rs\<rparr>))))"

definition lock :: "RemoteNode \<Rightarrow> Crypto \<Rightarrow> string \<Rightarrow> 'tx Wallet \<Rightarrow> (error + unit) \<times> 'tx Wallet" where
  "lock rn cr passphrase w =
     (if STATE w \<noteq> READY then (Inl LockNotReady, w)
      else case rpc w of
          Some r \<Rightarrow>
            (case rpcLock rn r of
               Some e \<Rightarrow> (Inl (External e), w)
             | None \<Rightarrow> (Inr (), w\<lparr>IS_LOCKED := True\<rparr>))
        | None \<Rightarrow>
            (case eachKey (cipherAddress cr passphrase) w of
               (Some e, w') \<Rightarrow> (Inl (External e), w')
             | (None, w') \<Rightarrow> (Inr (), w'\<lparr>MNEMONIC := None, IS_LOCKED := True\<rparr>)))"

definition unlock ::
  "RemoteNode \<Rightarrow> Crypto \<Rightarrow> string \<Rightarrow> bool \<Rightarrow> 'tx Wallet \<Rightarrow> (error + unit) \<times> 'tx Wallet" where
  "unlock rn cr passphrase forStakingOnly w =
     (if STATE w \<noteq> READY then (Inl UnlockNotReady, w)
      else case rpc w of
          Some r \<Rightarrow>
            (case rpcUnlock rn r passphrase ONE_YEAR_IN_SECONDS forStakingOnly of
               Some e \<Rightarrow> (Inl (External e), w)
             | None \<Rightarrow> (Inr (), w\<lparr>IS_LOCKED := False\<rparr>))
        | None \<Rightarrow>
            (case eachKey (decipherAddress cr passphrase) w of
               (Some e, w') \<Rightarrow> (Inl (External e), w')
             | (None, w') \<Rightarrow> (Inr (), w'\<lparr>IS_LOCKED := False\<rparr>)))"

section \<open>importRandomAddress\<close>

text \<open>
  The first half of the method: the entry guard, the deciphering of the key and the
  hash. It returns the address as the method has rewritten it.
\<close>

definition importPrepare ::
  "Crypto \<Rightarrow> Electra \<Rightarrow> WalletAddress \<Rightarrow> string option \<Rightarrow> bool \<Rightarrow> 'tx Wallet
    \<Rightarrow> error + WalletAddress" where
  "importPrepare cr el address passphrase isHDMasterNode w =
     (if isHDMasterNode \<and> MASTER_NODE_ADDRESS w \<noteq> None then Inl ImportMasterNodeExists
      else case (if isCiphered address then
                   (case passphrase of
                      None \<Rightarrow> Inl ImportCipheredWithoutPassphrase
                    | Some p \<Rightarrow>
                        (case decipherPrivateKey cr (privateKey address) p of
                           Inl e \<Rightarrow> Inl (External e)
                         | Inr k \<Rightarrow> Inr (address\<lparr>privateKey := k, isCiphered := False\<rparr>)))
                 else Inr address) of
          Inl e \<Rightarrow> Inl e
        | Inr address' \<Rightarrow>
            (case getAddressHashFromPrivateKey el (privateKey address') of
               Inl e \<Rightarrow> Inl (External e)
             | Inr h \<Rightarrow> Inr (address'\<lparr>hash := h\<rparr>)))"

text \<open>
  The guard inside the master-node branch,
  \<^verbatim>\<open>this.state === WalletState.READY && this.isHD\<close>: the accessor \<open>isHD\<close> is read only
  when the state is \<open>READY\<close>.
\<close>

definition importInnerGuard :: "'tx Wallet \<Rightarrow> error + bool" where
  "importInnerGuard w =
     (if wallet_state w = READY then wallet_isHD w else Inr False)"

definition importRandomAddress ::
  "Crypto \<Rightarrow> Electra \<Rightarrow> WalletAddress \<Rightarrow> string option \<Rightarrow> bool \<Rightarrow> 'tx Wallet
    \<Rightarrow> (error + unit) \<times> 'tx Wallet" where
  "importRandomAddress cr el address passphrase isHDMasterNode w =
     (case importPrepare cr el address passphrase isHDMasterNode w of
        Inl e \<Rightarrow> (Inl e, w)
      | Inr address' \<Rightarrow>
          if isHDMasterNode then
            (case importInnerGuard w of
               Inl e \<Rightarrow> (Inl e, w)
             | Inr True \<Rightarrow> (Inl ImportAnotherMasterNode, w)
             | Inr False \<Rightarrow>
                 (Inr (), w\<lparr>MASTER_NODE_ADDRESS := Some (address'\<lparr>isHD := True\<rparr>)\<rparr>))
          else (Inr (), w\<lparr>RANDOM_ADDRESSES := RANDOM_ADDRESSES w @ [address']\<rparr>))"

section \<open>generate\<close>

text \<open>\<^verbatim>\<open>{ ...address, label: null }\<close>\<close>

definition withNullLabel :: "Address \<Rightarrow> WalletAddress" where
  "withNullLabel a =
     \<lparr>hash = hash a, isCiphered = isCiphered a, isHD = isHD a, privateKey = privateKey a,
      label = None\<rparr>"

text \<open>
  Step 3, \<^verbatim>\<open>while (++chainIndex < chainsCount)\<close>: \<open>chainIndex\<close> is the value before the
  increment, \<open>addresses\<close> is \<^verbatim>\<open>this.ADDRESSES\<close>, \<open>key\<close> the private key of the master
  node. A derivation that throws leaves the addresses pushed so far.
\<close>

function generateChains ::
  "Electra \<Rightarrow> string \<Rightarrow> int \<Rightarrow> int \<Rightarrow> WalletAddress list \<Rightarrow> thrown option \<times> WalletAddress list" where
  "generateChains el key chainIndex nChains addresses =
     (if chainIndex + 1 < nChains then
        (case getDerivedChainFromMasterNodePrivateKey el key WALLET_INDEX (chainIndex + 1) of
           Inl e \<Rightarrow> (Some e, addresses)
         | Inr a \<Rightarrow> generateChains el key (chainIndex + 1) nChains (addresses @ [withNullLabel a]))
      else (None, addresses))"
  by pat_completeness auto
termination
  by (relation "measure (\<lambda>(el, key, chainIndex, nChains, addresses). nat (nChains - chainIndex))") auto

definition generate ::
  "Electra \<Rightarrow> string option \<Rightarrow> string option \<Rightarrow> int \<Rightarrow> 'tx Wallet \<Rightarrow> (error + unit) \<times> 'tx Wallet" where
  "generate el mnemonic mnemonicExtension nChains w =
     (if STATE w = READY then (Inl GenerateOnReady, w)
      else case (case mnemonic of
                   Some m \<Rightarrow>
                     if \<not> validateMnemonic el m then Inl GenerateInvalidMnemonic else Inr (m, w)
                 | None \<Rightarrow>
                     (case getRandomMnemonic el of
                        Inl e \<Rightarrow> Inl (External e)
                      | Inr m \<Rightarrow> Inr (m, w\<lparr>MNEMONIC := Some m\<rparr>))) of
          Inl e \<Rightarrow> (Inl e, w)
        | Inr (m, w1) \<Rightarrow>
            (case getMasterNodeAddressFromMnemonic el m mnemonicExtension of
               Inl e \<Rightarrow> (Inl (External e), w1)
             | Inr address \<Rightarrow>
                 (case generateChains el (privateKey address) (- 1) nChains (ADDRESSES w1) of
                    (Some e, as) \<Rightarrow>
                      (Inl (External e),
                       w1\<lparr>MASTER_NODE_ADDRESS := Some (withNullLabel address), ADDRESSES := as\<rparr>)
                  | (None, as) \<Rightarrow>
                      (Inr (),
                       w1\<lparr>MASTER_NODE_ADDRESS := Some (withNullLabel address), ADDRESSES := as,
                          STATE := READY\<rparr>))))"

section \<open>getBalance\<close>

text \<open>
  The balance service is a function from the address hash to the outcome of the query.
  \<open>getBalance\<close> returns its outcome and the hashes it has queried, in the order of the
  queries. The type of the amounts is a parameter: the code uses the \<open>0\<close> and the \<open>+\<close>
  of JavaScript numbers and nothing else of them, and no law of \<open>+\<close> is assumed. The
  type \<open>number\<close> below is a model of JavaScript numbers.

  The loop \<^verbatim>\<open>while (--index >= 0)\<close>: \<open>index\<close> is the value before the decrement.
\<close>

function balanceLoop ::
  "(string \<Rightarrow> thrown + 'n::plus) \<Rightarrow> WalletAddress list \<Rightarrow> int \<Rightarrow> 'n \<Rightarrow> string list
    \<Rightarrow> (error + 'n) \<times> string list" where
  "balanceLoop getBalanceFor allAddresses index balanceTotal queried =
     (if index - 1 \<ge> 0 then
        (if nat (index - 1) < length allAddresses then
           (case getBalanceFor (hash (allAddresses ! nat (index - 1))) of
              Inl e \<Rightarrow> (Inl (External e), queried @ [hash (allAddresses ! nat (index - 1))])
            | Inr balance \<Rightarrow>
                balanceLoop getBalanceFor allAddresses (index - 1) (balanceTotal + balance)
                  (queried @ [hash (allAddresses ! nat (index - 1))]))
         else (Inl TypeError, queried))
      else (Inr balanceTotal, queried))"
  by pat_completeness auto
termination
  by (relation "measure (\<lambda>(getBalanceFor, allAddresses, index, balanceTotal, queried). nat index)") auto

definition getBalance ::
  "(string \<Rightarrow> thrown + 'n::{zero,plus}) \<Rightarrow> string option \<Rightarrow> 'tx Wallet
    \<Rightarrow> (error + 'n) \<times> string list" where
  "getBalance getBalanceFor addressHash w =
     (if STATE w = EMPTY then (Inl GetBalanceOnEmpty, [])
      else case wallet_allAddresses w of
          Inl e \<Rightarrow> (Inl e, [])
        | Inr addresses \<Rightarrow>
            (case addressHash of
               Some h \<Rightarrow>
                 if length (filter (\<lambda>address. hash address = h) addresses) = 0
                 then (Inl GetBalanceForeignAddress, [])
                 else (case getBalanceFor h of
                         Inl e \<Rightarrow> (Inl (External e), [h])
                       | Inr balance \<Rightarrow> (Inr balance, [h]))
             | None \<Rightarrow> balanceLoop getBalanceFor addresses (int (length addresses)) 0 []))"

section \<open>Auxiliary definitions\<close>

text \<open>
  The queries of the loop in \<open>getBalance\<close>, as a recursion over the addresses in the
  order the loop visits them. \<open>balanceLoop\<close> is proved equal to it below.
\<close>

fun queryEach ::
  "(string \<Rightarrow> thrown + 'n::plus) \<Rightarrow> WalletAddress list \<Rightarrow> 'n \<Rightarrow> string list
    \<Rightarrow> (error + 'n) \<times> string list" where
  "queryEach svc [] t q = (Inr t, q)"
| "queryEach svc (a # as) t q =
     (case svc (hash a) of
        Inl e \<Rightarrow> (Inl (External e), q @ [hash a])
      | Inr b \<Rightarrow> queryEach svc as (t + b) (q @ [hash a]))"

subsection \<open>Example collaborators and wallets\<close>

text \<open>
  Stand-ins for the collaborators, used to run the methods on concrete wallets. The
  cipher prefixes the key with the passphrase and \<open>#\<close>; deciphering removes that prefix
  and throws when it is not there.
\<close>

definition exampleCrypto :: Crypto where
  "exampleCrypto =
     \<lparr>cipherPrivateKey = (\<lambda>k p. Inr (p @ ''#'' @ k)),
      decipherPrivateKey = (\<lambda>c p.
        if take (length p + 1) c = p @ ''#'' then Inr (drop (length p + 1) c)
        else Inl ''wrong passphrase'')\<rparr>"

definition exampleElectra :: Electra where
  "exampleElectra =
     \<lparr>validateMnemonic = (\<lambda>m. m \<noteq> []),
      getRandomMnemonic = Inr ''abandon ability able'',
      getMasterNodeAddressFromMnemonic = (\<lambda>m ext.
        Inr \<lparr>hash = ''M'', isCiphered = False, isHD = True, privateKey = ''xprv-'' @ m\<rparr>),
      getDerivedChainFromMasterNodePrivateKey = (\<lambda>k wi ci.
        Inr \<lparr>hash = ''E'' @ replicate (nat ci) CHR ''i'', isCiphered = False, isHD = False,
             privateKey = k @ ''/'' @ replicate (nat ci) CHR ''i''\<rparr>),
      getAddressHashFromPrivateKey = (\<lambda>k. Inr (''H-'' @ k))\<rparr>"

definition exampleNode :: RemoteNode where
  "exampleNode = \<lparr>rpcLock = (\<lambda>r. None), rpcUnlock = (\<lambda>r p t s. None)\<rparr>"

definition exampleService :: "string \<Rightarrow> thrown + int" where
  "exampleService h =
     (if h = ''E'' then Inr 5 else if h = ''Ei'' then Inr 7
      else if h = ''H-k1'' then Inr 30 else Inl ''unknown address'')"

definition exampleAmount :: "string \<Rightarrow> int" where
  "exampleAmount h = (if h = ''E'' then 5 else if h = ''Ei'' then 7 else 30)"

definition failingService :: "string \<Rightarrow> thrown + int" where
  "failingService h = (if h = ''Ei'' then Inl ''timeout'' else exampleService h)"

definition importedAddress :: WalletAddress where
  "importedAddress =
     \<lparr>hash = '''', isCiphered = False, isHD = False, privateKey = ''k1'',
      label = Some ''savings''\<rparr>"

text \<open>
  A wallet made by the class itself: generated from the mnemonic \<open>seed\<close> with two
  chains, then one random address imported. \<open>lockedWallet\<close> is that wallet after
  \<open>lock\<close> with the passphrase \<open>pw\<close>.
\<close>

definition exampleWallet :: "unit Wallet" where
  "exampleWallet =
     snd (importRandomAddress exampleCrypto exampleElectra importedAddress None False
       (snd (generate exampleElectra (Some ''seed'') None 2 initial)))"

definition lockedWallet :: "unit Wallet" where
  "lockedWallet = snd (lock exampleNode exampleCrypto ''pw'' exampleWallet)"

subsection \<open>JavaScript numbers\<close>

text \<open>
  A JavaScript number is an IEEE-754 double, and \<^verbatim>\<open>balanceTotal += balance\<close> is the
  addition of doubles: the exact sum, rounded to the nearest double, to the one with
  the even significand when two are equally near. \<open>number\<close> models the doubles of
  integer value and of magnitude below \<open>2 ^ 1023\<close>, where the sum of two does not
  overflow: \<open>Number i\<close> is the double of value \<open>i\<close>. A double has a significand of
  53 bits: \<open>significandShift n\<close> is the number of low bits of \<open>n\<close> that do not fit,
  and \<open>roundDouble\<close> rounds an integer to the nearest one that fits, ties to the even
  significand. Every integer of magnitude below \<open>2 ^ 53\<close> is a double, and is its own
  rounding (\<open>roundDouble_exact\<close>).
\<close>

datatype number = Number int

fun valueOf :: "number \<Rightarrow> int" where
  "valueOf (Number i) = i"

function significandShift :: "int \<Rightarrow> nat" where
  "significandShift n = (if n < 2 ^ 53 then 0 else Suc (significandShift (n div 2)))"
  by pat_completeness auto
termination
  by (relation "measure nat") auto

definition roundDouble :: "int \<Rightarrow> int" where
  "roundDouble s =
     (let n = \<bar>s\<bar>; shift = significandShift n; m = n div 2 ^ shift; r = n mod 2 ^ shift
      in if 2 * r > 2 ^ shift \<or> (2 * r = 2 ^ shift \<and> odd m)
         then sgn s * ((m + 1) * 2 ^ shift)
         else sgn s * (m * 2 ^ shift))"

instantiation number :: "{zero,plus}"
begin

definition zero_number :: number where
  "zero_number = Number 0"

definition plus_number :: "number \<Rightarrow> number \<Rightarrow> number" where
  "plus_number a b = Number (roundDouble (valueOf a + valueOf b))"

instance ..

end

text \<open>
  Balance services that answer with numbers: the amounts 5, 7 and 30 of
  \<open>exampleService\<close>, the same with the query for \<open>Ei\<close> failing, and one that answers
  \<open>2 ^ 53\<close> for one address.
\<close>

definition numberService :: "string \<Rightarrow> thrown + number" where
  "numberService h =
     (case exampleService h of Inl e \<Rightarrow> Inl e | Inr i \<Rightarrow> Inr (Number i))"

definition numberAmount :: "string \<Rightarrow> number" where
  "numberAmount h = Number (exampleAmount h)"

definition failingNumberService :: "string \<Rightarrow> thrown + number" where
  "failingNumberService h = (if h = ''Ei'' then Inl ''timeout'' else numberService h)"

definition roundingService :: "string \<Rightarrow> thrown + number" where
  "roundingService h =
     (if h = ''E'' then Inr (Number 0)
      else if h = ''H-k1'' then Inr (Number 9007199254740992)
      else if h = ''H-k2'' then Inr (Number 1)
      else if h = ''H-k3'' then Inr (Number 1)
      else Inl ''unknown address'')"

text \<open>
  Two wallets made by the class: generated from the mnemonic \<open>seed\<close> with one chain,
  then three random addresses imported, in the order \<open>k1\<close>, \<open>k2\<close>, \<open>k3\<close> for
  \<open>walletP\<close> and in the order \<open>k3\<close>, \<open>k2\<close>, \<open>k1\<close> for \<open>walletQ\<close>.
\<close>

definition importKey :: "string \<Rightarrow> unit Wallet \<Rightarrow> unit Wallet" where
  "importKey k w =
     snd (importRandomAddress exampleCrypto exampleElectra
       \<lparr>hash = '''', isCiphered = False, isHD = False, privateKey = k, label = None\<rparr>
       None False w)"

definition walletP :: "unit Wallet" where
  "walletP =
     importKey ''k3'' (importKey ''k2'' (importKey ''k1''
       (snd (generate exampleElectra (Some ''seed'') None 1 initial))))"

definition walletQ :: "unit Wallet" where
  "walletQ =
     importKey ''k1'' (importKey ''k2'' (importKey ''k3''
       (snd (generate exampleElectra (Some ''seed'') None 1 initial))))"

section \<open>Basic facts\<close>

declare generateChains.simps [simp del]
declare balanceLoop.simps [simp del]
declare significandShift.simps [simp del]

lemma not_EMPTY: "(s \<noteq> EMPTY) = (s = READY)"
  by (cases s) simp_all

lemma allAddresses_READY:
  "STATE w = READY \<Longrightarrow> wallet_allAddresses w = Inr (ADDRESSES w @ RANDOM_ADDRESSES w)"
  by (simp add: wallet_allAddresses_def wallet_addresses_def wallet_randomAddresses_def)

subsection \<open>The example wallets, computed\<close>

lemma exampleWallet_eq:
  "exampleWallet =
     \<lparr>ADDRESSES =
        [\<lparr>hash = ''E'', isCiphered = False, isHD = False, privateKey = ''xprv-seed/'',
          label = None\<rparr>,
         \<lparr>hash = ''Ei'', isCiphered = False, isHD = False, privateKey = ''xprv-seed/i'',
          label = None\<rparr>],
      RANDOM_ADDRESSES =
        [\<lparr>hash = ''H-k1'', isCiphered = False, isHD = False, privateKey = ''k1'',
          label = Some ''savings''\<rparr>],
      IS_LOCKED = False,
      MASTER_NODE_ADDRESS =
        Some \<lparr>hash = ''M'', isCiphered = False, isHD = True, privateKey = ''xprv-seed'',
          label = None\<rparr>,
      MNEMONIC = None, rpc = None, STATE = READY, TRANSACTIONS = []\<rparr>"
  by (simp add: exampleWallet_def generate_def initial_def exampleElectra_def
      generateChains.simps withNullLabel_def WALLET_INDEX_def importRandomAddress_def
      importPrepare_def importedAddress_def)

lemma lockedWallet_eq:
  "lockedWallet =
     \<lparr>ADDRESSES =
        [\<lparr>hash = ''E'', isCiphered = False, isHD = False, privateKey = ''pw#xprv-seed/'',
          label = None\<rparr>,
         \<lparr>hash = ''Ei'', isCiphered = False, isHD = False, privateKey = ''pw#xprv-seed/i'',
          label = None\<rparr>],
      RANDOM_ADDRESSES =
        [\<lparr>hash = ''H-k1'', isCiphered = False, isHD = False, privateKey = ''pw#k1'',
          label = Some ''savings''\<rparr>],
      IS_LOCKED = True,
      MASTER_NODE_ADDRESS =
        Some \<lparr>hash = ''M'', isCiphered = False, isHD = True, privateKey = ''pw#xprv-seed'',
          label = None\<rparr>,
      MNEMONIC = None, rpc = None, STATE = READY, TRANSACTIONS = []\<rparr>"
  by (simp add: lockedWallet_def exampleWallet_eq lock_def eachKey_def cipherAddress_def
      exampleCrypto_def)

lemma lock_exampleWallet:
  "lock exampleNode exampleCrypto ''pw'' exampleWallet = (Inr (), lockedWallet)"
  by (simp add: lockedWallet_eq exampleWallet_eq lock_def eachKey_def cipherAddress_def
      exampleCrypto_def)

lemma unlock_lockedWallet:
  "unlock exampleNode exampleCrypto ''pw'' True lockedWallet =
     (Inr (), lockedWallet\<lparr>IS_LOCKED := False\<rparr>)"
  by (simp add: lockedWallet_eq unlock_def eachKey_def decipherAddress_def)

lemma generate_example:
  "generate exampleElectra None None 3 (initial :: unit Wallet) =
    (Inr (),
     \<lparr>ADDRESSES =
        [\<lparr>hash = ''E'', isCiphered = False, isHD = False,
          privateKey = ''xprv-abandon ability able/'', label = None\<rparr>,
         \<lparr>hash = ''Ei'', isCiphered = False, isHD = False,
          privateKey = ''xprv-abandon ability able/i'', label = None\<rparr>,
         \<lparr>hash = ''Eii'', isCiphered = False, isHD = False,
          privateKey = ''xprv-abandon ability able/ii'', label = None\<rparr>],
      RANDOM_ADDRESSES = [], IS_LOCKED = False,
      MASTER_NODE_ADDRESS =
        Some \<lparr>hash = ''M'', isCiphered = False, isHD = True,
          privateKey = ''xprv-abandon ability able'', label = None\<rparr>,
      MNEMONIC = Some ''abandon ability able'', rpc = None, STATE = READY,
      TRANSACTIONS = []\<rparr>)"
  by (simp add: generate_def initial_def exampleElectra_def generateChains.simps
      withNullLabel_def WALLET_INDEX_def eval_nat_numeral)

subsection \<open>What lock, unlock, importRandomAddress and reset leave unchanged\<close>

lemma map_in_place_cipher_flags:
  "map isCiphered (snd (map_in_place (cipherAddress cr p) as)) = map isCiphered as"
  by (induction as) (auto simp: cipherAddress_def split: sum.splits prod.splits)

lemma map_in_place_decipher_flags:
  "map isCiphered (snd (map_in_place (decipherAddress cr p) as)) = map isCiphered as"
  by (induction as) (auto simp: decipherAddress_def split: sum.splits prod.splits)

lemma lock_keeps_isCiphered:
  "map isCiphered (ADDRESSES (snd (lock rn cr p w))) = map isCiphered (ADDRESSES w) \<and>
   map isCiphered (RANDOM_ADDRESSES (snd (lock rn cr p w))) = map isCiphered (RANDOM_ADDRESSES w) \<and>
   map_option isCiphered (MASTER_NODE_ADDRESS (snd (lock rn cr p w)))
     = map_option isCiphered (MASTER_NODE_ADDRESS w)"
  using map_in_place_cipher_flags [of cr p "ADDRESSES w"]
    map_in_place_cipher_flags [of cr p "RANDOM_ADDRESSES w"]
  by (auto simp: lock_def eachKey_def cipherAddress_def split: sum.splits prod.splits option.splits)

lemma unlock_keeps_isCiphered:
  "map isCiphered (ADDRESSES (snd (unlock rn cr p s w))) = map isCiphered (ADDRESSES w) \<and>
   map isCiphered (RANDOM_ADDRESSES (snd (unlock rn cr p s w)))
     = map isCiphered (RANDOM_ADDRESSES w) \<and>
   map_option isCiphered (MASTER_NODE_ADDRESS (snd (unlock rn cr p s w)))
     = map_option isCiphered (MASTER_NODE_ADDRESS w)"
  using map_in_place_decipher_flags [of cr p "ADDRESSES w"]
    map_in_place_decipher_flags [of cr p "RANDOM_ADDRESSES w"]
  by (auto simp: unlock_def eachKey_def decipherAddress_def
      split: sum.splits prod.splits option.splits)

lemma importRandomAddress_keeps_STATE:
  "STATE (snd (importRandomAddress cr el address passphrase isHDMasterNode w)) = STATE w"
  by (auto simp: importRandomAddress_def split: sum.splits bool.splits)

lemma reset_READY:
  "STATE w = READY \<Longrightarrow>
   reset w =
     (Inr (),
      \<lparr>ADDRESSES = [], RANDOM_ADDRESSES = [], IS_LOCKED = IS_LOCKED w,
       MASTER_NODE_ADDRESS = None, MNEMONIC = None, rpc = rpc w, STATE = EMPTY,
       TRANSACTIONS = []\<rparr>)"
  by (simp add: reset_def)

lemma reset_EMPTY: "STATE w = EMPTY \<Longrightarrow> reset w = (Inl ResetOnEmpty, w)"
  by (simp add: reset_def)

subsection \<open>The loops\<close>

lemma balanceLoop_queryEach:
  "n \<le> length all \<Longrightarrow>
   balanceLoop svc all (int n) t q = queryEach svc (rev (take n all)) t q"
proof (induction n arbitrary: t q)
  case 0
  show ?case by (subst balanceLoop.simps) simp
next
  case (Suc n)
  then have lt: "n < length all" by simp
  have tk: "rev (take (Suc n) all) = all ! n # rev (take n all)"
    using lt by (simp add: take_Suc_conv_app_nth)
  show ?case
    using Suc.IH lt
    by (subst balanceLoop.simps) (simp add: tk split: sum.splits)
qed

lemma queryEach_fail:
  "\<forall>a\<in>set xs. \<forall>e. svc (hash a) \<noteq> Inl e \<Longrightarrow> svc (hash b) = Inl e \<Longrightarrow>
   queryEach svc (xs @ b # ys) t q = (Inl (External e), q @ map hash xs @ [hash b])"
  by (induction xs arbitrary: t q) (simp_all split: sum.splits)

lemma getBalance_all:
  "STATE w \<noteq> EMPTY \<Longrightarrow>
   getBalance svc None w = queryEach svc (rev (ADDRESSES w @ RANDOM_ADDRESSES w)) 0 []"
  using balanceLoop_queryEach [of "length (ADDRESSES w @ RANDOM_ADDRESSES w)" "ADDRESSES w @ RANDOM_ADDRESSES w" svc 0 "[]"]
  by (simp add: getBalance_def not_EMPTY allAddresses_READY)

lemma foldl_queryEach:
  "\<forall>a\<in>set xs. svc (hash a) = Inr (amount (hash a)) \<Longrightarrow>
   queryEach svc xs t q = (Inr (foldl (+) t (map (\<lambda>a. amount (hash a)) xs)), q @ map hash xs)"
  by (induction xs arbitrary: t q) simp_all

lemma getBalance_all_foldl:
  assumes "STATE w \<noteq> EMPTY"
    and "\<forall>a\<in>set (ADDRESSES w @ RANDOM_ADDRESSES w). svc (hash a) = Inr (amount (hash a))"
  shows "getBalance svc None w =
         (Inr (foldl (+) 0 (map (\<lambda>a. amount (hash a)) (rev (ADDRESSES w @ RANDOM_ADDRESSES w)))),
          rev (map hash (ADDRESSES w @ RANDOM_ADDRESSES w)))"
proof -
  define all where "all = ADDRESSES w @ RANDOM_ADDRESSES w"
  have "\<forall>a\<in>set (rev all). svc (hash a) = Inr (amount (hash a))"
    using assms(2) unfolding all_def by auto
  from foldl_queryEach [OF this, of 0 "[]"]
  have "queryEach svc (rev all) 0 [] =
      (Inr (foldl (+) 0 (map (\<lambda>a. amount (hash a)) (rev all))), rev (map hash all))"
    by (simp add: rev_map)
  then show ?thesis
    unfolding all_def by (simp only: getBalance_all [OF assms(1)])
qed

lemma generateChains_ok:
  "generateChains el key ci n as = (None, as') \<Longrightarrow>
   \<exists>ds. length ds = nat (n - (ci + 1)) \<and>
        (\<forall>j<length ds. getDerivedChainFromMasterNodePrivateKey el key WALLET_INDEX (ci + 1 + int j) = Inr (ds ! j)) \<and>
        as' = as @ map withNullLabel ds"
proof (induction el key ci n as rule: generateChains.induct)
  case (1 el key ci n as)
  show ?case
  proof (cases "ci + 1 < n")
    case False
    with "1.prems" show ?thesis by (simp add: generateChains.simps)
  next
    case True
    from "1.prems" True obtain a where
      d: "getDerivedChainFromMasterNodePrivateKey el key WALLET_INDEX (ci + 1) = Inr a" and
      r: "generateChains el key (ci + 1) n (as @ [withNullLabel a]) = (None, as')"
      by (subst (asm) generateChains.simps) (auto split: sum.splits)
    from "1.IH" [OF True d r] obtain ds where
      l: "length ds = nat (n - (ci + 1 + 1))" and
      e: "\<forall>j<length ds. getDerivedChainFromMasterNodePrivateKey el key WALLET_INDEX (ci + 1 + 1 + int j) = Inr (ds ! j)" and
      a: "as' = (as @ [withNullLabel a]) @ map withNullLabel ds"
      by blast
    have "length (a # ds) = nat (n - (ci + 1))" using l True by simp
    moreover have "\<forall>j<length (a # ds). getDerivedChainFromMasterNodePrivateKey el key WALLET_INDEX (ci + 1 + int j) = Inr ((a # ds) ! j)"
    proof (intro allI impI)
      fix j assume "j < length (a # ds)"
      then show "getDerivedChainFromMasterNodePrivateKey el key WALLET_INDEX (ci + 1 + int j) = Inr ((a # ds) ! j)"
        using d e by (cases j) (simp_all add: algebra_simps)
    qed
    moreover have "as' = as @ map withNullLabel (a # ds)" using a by simp
    ultimately show ?thesis by blast
  qed
qed

subsection \<open>Sums of JavaScript numbers\<close>

lemma significandShift_small: "n < 2 ^ 53 \<Longrightarrow> significandShift n = 0"
  by (subst significandShift.simps) simp

lemma significandShift_54: "2 ^ 53 \<le> n \<Longrightarrow> n < 2 ^ 54 \<Longrightarrow> significandShift n = 1"
  by (subst significandShift.simps) (simp add: significandShift_small)

lemma roundDouble_exact: "\<bar>s\<bar> < 2 ^ 53 \<Longrightarrow> roundDouble s = s"
  by (simp add: roundDouble_def Let_def significandShift_small mult_sgn_abs)

lemma roundDouble_54:
  "2 ^ 53 \<le> \<bar>s\<bar> \<Longrightarrow> \<bar>s\<bar> < 2 ^ 54 \<Longrightarrow>
   roundDouble s =
     (if 2 * (\<bar>s\<bar> mod 2) > 2 \<or> (2 * (\<bar>s\<bar> mod 2) = 2 \<and> odd (\<bar>s\<bar> div 2))
      then sgn s * ((\<bar>s\<bar> div 2 + 1) * 2) else sgn s * (\<bar>s\<bar> div 2 * 2))"
  by (simp add: roundDouble_def Let_def significandShift_54)

lemma roundDouble_values:
  "roundDouble 9007199254740992 = 9007199254740992"
  "roundDouble 9007199254740993 = 9007199254740992"
  "roundDouble 9007199254740994 = 9007199254740994"
  by (simp_all add: roundDouble_54)

lemma number_sums:
  "(0::number) + Number 1 = Number 1"
  "Number 1 + Number 1 = Number 2"
  "Number 2 + Number 9007199254740992 = Number 9007199254740994"
  "Number 9007199254740994 + Number 0 = Number 9007199254740994"
  "(0::number) + Number 9007199254740992 = Number 9007199254740992"
  "Number 9007199254740992 + Number 1 = Number 9007199254740992"
  "Number 9007199254740992 + Number 0 = Number 9007199254740992"
  by (simp_all add: plus_number_def zero_number_def roundDouble_exact roundDouble_values)

lemma number_small_sums:
  "(0::number) + Number 30 = Number 30"
  "Number 30 + Number 7 = Number 37"
  "Number 37 + Number 5 = Number 42"
  by (simp_all add: plus_number_def zero_number_def roundDouble_exact)

subsection \<open>The wallets with three random addresses, computed\<close>

lemma walletP_eq:
  "STATE walletP = READY \<and>
   ADDRESSES walletP =
     [\<lparr>hash = ''E'', isCiphered = False, isHD = False, privateKey = ''xprv-seed/'',
       label = None\<rparr>] \<and>
   RANDOM_ADDRESSES walletP =
     [\<lparr>hash = ''H-k1'', isCiphered = False, isHD = False, privateKey = ''k1'', label = None\<rparr>,
      \<lparr>hash = ''H-k2'', isCiphered = False, isHD = False, privateKey = ''k2'', label = None\<rparr>,
      \<lparr>hash = ''H-k3'', isCiphered = False, isHD = False, privateKey = ''k3'', label = None\<rparr>]"
  by (simp add: walletP_def importKey_def generate_def initial_def exampleElectra_def
      generateChains.simps withNullLabel_def WALLET_INDEX_def importRandomAddress_def
      importPrepare_def)

lemma walletQ_eq:
  "STATE walletQ = READY \<and>
   ADDRESSES walletQ =
     [\<lparr>hash = ''E'', isCiphered = False, isHD = False, privateKey = ''xprv-seed/'',
       label = None\<rparr>] \<and>
   RANDOM_ADDRESSES walletQ =
     [\<lparr>hash = ''H-k3'', isCiphered = False, isHD = False, privateKey = ''k3'', label = None\<rparr>,
      \<lparr>hash = ''H-k2'', isCiphered = False, isHD = False, privateKey = ''k2'', label = None\<rparr>,
      \<lparr>hash = ''H-k1'', isCiphered = False, isHD = False, privateKey = ''k1'', label = None\<rparr>]"
  by (simp add: walletQ_def importKey_def generate_def initial_def exampleElectra_def
      generateChains.simps withNullLabel_def WALLET_INDEX_def importRandomAddress_def
      importPrepare_def)

lemma getBalance_walletP:
  "getBalance roundingService None walletP =
     (Inr (Number 9007199254740994), [''H-k3'', ''H-k2'', ''H-k1'', ''E''])"
  by (simp add: getBalance_all walletP_eq roundingService_def number_sums)

lemma getBalance_walletQ:
  "getBalance roundingService None walletQ =
     (Inr (Number 9007199254740992), [''H-k1'', ''H-k2'', ''H-k3'', ''E''])"
  by (simp add: getBalance_all walletQ_eq roundingService_def number_sums)

section \<open>The claims\<close>

subsection \<open>C1: lock, then unlock with the same passphrase\<close>

text \<open>
  Claim C1: on a \<open>READY\<close> wallet with no remote node, \<open>lock(p)\<close> followed by
  \<open>unlock(p)\<close> restores every private key, and \<open>isCiphered\<close> is true after \<open>lock\<close> and
  false after \<open>unlock\<close>.

  The code does not do this. \<open>lock\<close> assigns the ciphered key and never assigns
  \<open>isCiphered\<close> (\<open>lock_keeps_isCiphered\<close>); \<open>unlock\<close> deciphers only the addresses
  whose flag is set, so it deciphers nothing. On the example wallet: after \<open>lock\<close>
  the keys are ciphered and the flags are still false; the cipher itself inverts
  (\<open>decipherPrivateKey\<close> gives the key back); after \<open>unlock\<close> the keys are still the
  ciphered ones.
\<close>

theorem lock_unlock_roundtrip_fails:
  "fst (lock exampleNode exampleCrypto ''pw'' exampleWallet) = Inr () \<and>
   map privateKey (ADDRESSES exampleWallet) = [''xprv-seed/'', ''xprv-seed/i''] \<and>
   map privateKey (ADDRESSES lockedWallet) = [''pw#xprv-seed/'', ''pw#xprv-seed/i''] \<and>
   map isCiphered (ADDRESSES lockedWallet) = [False, False] \<and>
   decipherPrivateKey exampleCrypto ''pw#xprv-seed/'' ''pw'' = Inr ''xprv-seed/'' \<and>
   fst (unlock exampleNode exampleCrypto ''pw'' True lockedWallet) = Inr () \<and>
   map privateKey (ADDRESSES (snd (unlock exampleNode exampleCrypto ''pw'' True lockedWallet)))
     = [''pw#xprv-seed/'', ''pw#xprv-seed/i'']"
proof -
  have a: "map privateKey (ADDRESSES exampleWallet) = [''xprv-seed/'', ''xprv-seed/i'']"
    by (simp add: exampleWallet_eq)
  have b: "map privateKey (ADDRESSES lockedWallet) = [''pw#xprv-seed/'', ''pw#xprv-seed/i'']"
    by (simp add: lockedWallet_eq)
  have c: "map isCiphered (ADDRESSES lockedWallet) = [False, False]"
    by (simp add: lockedWallet_eq)
  have d: "decipherPrivateKey exampleCrypto ''pw#xprv-seed/'' ''pw'' = Inr ''xprv-seed/''"
    by (simp add: exampleCrypto_def)
  show ?thesis
    using a b c d by (simp add: lock_exampleWallet unlock_lockedWallet)
qed

subsection \<open>C2: lock twice, unlock twice\<close>


subsection \<open>C3: importRandomAddress on an empty wallet\<close>

text \<open>
  Claim C3: a successful \<open>importRandomAddress\<close> on an \<open>EMPTY\<close> wallet leaves the
  wallet \<open>READY\<close>, on the master-node path and on the random-address path.

  The method never assigns the state (\<open>importRandomAddress_keeps_STATE\<close>). On a wallet
  just constructed both paths succeed and the state is still \<open>EMPTY\<close>.
\<close>

theorem import_leaves_EMPTY:
  "importRandomAddress exampleCrypto exampleElectra importedAddress None False
       (initial :: unit Wallet)
     = (Inr (), initial\<lparr>RANDOM_ADDRESSES := [importedAddress\<lparr>hash := ''H-k1''\<rparr>]\<rparr>) \<and>
   importRandomAddress exampleCrypto exampleElectra importedAddress None True
       (initial :: unit Wallet)
     = (Inr (), initial\<lparr>MASTER_NODE_ADDRESS :=
          Some (importedAddress\<lparr>hash := ''H-k1'', isHD := True\<rparr>)\<rparr>) \<and>
   STATE (initial :: unit Wallet) = EMPTY \<and>
   STATE (snd (importRandomAddress exampleCrypto exampleElectra importedAddress None False
       (initial :: unit Wallet))) = EMPTY \<and>
   STATE (snd (importRandomAddress exampleCrypto exampleElectra importedAddress None True
       (initial :: unit Wallet))) = EMPTY"
  by (simp add: importRandomAddress_def importPrepare_def importInnerGuard_def
      wallet_state_def initial_def importedAddress_def exampleElectra_def)

subsection \<open>C4: the state after construction\<close>

text \<open>
  Claim C4: every newly constructed wallet is \<open>EMPTY\<close>, whatever the settings, also
  those that bind a remote node.

  The constructor sets the state to \<open>READY\<close> when it binds a remote node, which it
  does exactly when both \<open>rpcServerUri\<close> and \<open>rpcServerAuth\<close> are given. The wallet is
  \<open>EMPTY\<close> after construction in every other case.
\<close>

theorem constructor_state:
  "STATE (constructor s) =
     (if rpcServerUri s \<noteq> None \<and> rpcServerAuth s \<noteq> None then READY else EMPTY) \<and>
   (rpc (constructor s) \<noteq> None) = (rpcServerUri s \<noteq> None \<and> rpcServerAuth s \<noteq> None)"
  by (auto simp: constructor_def initial_def split: option.splits)

text \<open>No settings, a URI alone, and a URI with credentials.\<close>

theorem constructor_state_witness:
  "STATE (constructor \<lparr>rpcServerUri = None, rpcServerAuth = None\<rparr> :: unit Wallet) = EMPTY \<and>
   STATE (constructor \<lparr>rpcServerUri = Some ''http://127.0.0.1:5788'', rpcServerAuth = None\<rparr>
     :: unit Wallet) = EMPTY \<and>
   STATE (constructor \<lparr>rpcServerUri = Some ''http://127.0.0.1:5788'',
       rpcServerAuth = Some \<lparr>username = ''user'', password = ''pass''\<rparr>\<rparr> :: unit Wallet) = READY"
  using constructor_state [of "\<lparr>rpcServerUri = None, rpcServerAuth = None\<rparr>"]
    constructor_state [of "\<lparr>rpcServerUri = Some ''http://127.0.0.1:5788'', rpcServerAuth = None\<rparr>"]
    constructor_state [of "\<lparr>rpcServerUri = Some ''http://127.0.0.1:5788'',
       rpcServerAuth = Some \<lparr>username = ''user'', password = ''pass''\<rparr>\<rparr>"]
  by (auto simp: constructor_def initial_def)

text \<open>The claim as stated fails at settings with a URI and credentials.\<close>

theorem constructor_rpc_counterexample:
  "\<not> (\<forall>s. STATE (constructor s :: unit Wallet) = EMPTY)"
proof
  assume "\<forall>s. STATE (constructor s :: unit Wallet) = EMPTY"
  then have "STATE (constructor \<lparr>rpcServerUri = Some ''http://127.0.0.1:5788'',
       rpcServerAuth = Some \<lparr>username = ''user'', password = ''pass''\<rparr>\<rparr> :: unit Wallet) = EMPTY"
    by blast
  then show False by (simp add: constructor_def)
qed

subsection \<open>C5: reset\<close>

text \<open>
  Claim C5: on a \<open>READY\<close> wallet \<open>reset()\<close> succeeds, moves the state to \<open>EMPTY\<close> and
  clears the master node address, the mnemonic, both address lists, the transactions
  and the locked flag; on an \<open>EMPTY\<close> wallet it fails and changes nothing.

  \<open>reset\<close> does all of this but for the locked flag, which it does not assign
  (\<open>reset_READY\<close>, \<open>reset_EMPTY\<close>). On the locked example wallet the flag is still
  set after \<open>reset\<close>; a wallet generated next is then locked by its flag while its
  keys are in clear, and \<open>export(false)\<close> hands them out.
\<close>

theorem reset_keeps_locked_flag:
  "STATE lockedWallet = READY \<and> IS_LOCKED lockedWallet \<and>
   reset lockedWallet = (Inr (), initial\<lparr>IS_LOCKED := True\<rparr>) \<and>
   IS_LOCKED (snd (reset lockedWallet)) \<and>
   export False (snd (generate exampleElectra (Some ''seed'') None 1 (snd (reset lockedWallet))))
     = Inr \<lparr>chainsCount = 1,
            masterNodeAddress =
              Some \<lparr>hash = ''M'', isCiphered = False, isHD = True, privateKey = ''xprv-seed'',
                label = None\<rparr>,
            randomAddresses = []\<rparr>"
  by (simp add: lockedWallet_eq reset_def initial_def generate_def exampleElectra_def
      generateChains.simps withNullLabel_def WALLET_INDEX_def export_def)

subsection \<open>C6: export\<close>

text \<open>
  Claim C6: on a \<open>READY\<close> wallet \<open>export(unsafe)\<close> succeeds exactly when the wallet is
  locked and \<open>unsafe\<close> is false, or unlocked and \<open>unsafe\<close> is true; it fails in the two
  other combinations; on success the snapshot is the number of HD chain addresses, the
  master node address or null, and the list of random addresses. The last conjunct
  says that the contents of the HD chain addresses do not matter, only their number.
\<close>

theorem export_matrix:
  "STATE w = READY \<Longrightarrow>
   ((\<exists>d. export unsafe w = Inr d) = (IS_LOCKED w \<and> \<not> unsafe \<or> \<not> IS_LOCKED w \<and> unsafe)) \<and>
   (\<not> IS_LOCKED w \<and> \<not> unsafe \<longrightarrow> export unsafe w = Inl ExportUnlockedNotUnsafe) \<and>
   (IS_LOCKED w \<and> unsafe \<longrightarrow> export unsafe w = Inl ExportLockedUnsafe) \<and>
   (\<forall>d. export unsafe w = Inr d \<longrightarrow>
      d = \<lparr>chainsCount = length (ADDRESSES w), masterNodeAddress = MASTER_NODE_ADDRESS w,
           randomAddresses = RANDOM_ADDRESSES w\<rparr>) \<and>
   (\<forall>as. length as = length (ADDRESSES w) \<longrightarrow> export unsafe (w\<lparr>ADDRESSES := as\<rparr>) = export unsafe w)"
  by (auto simp: export_def)

text \<open>The four combinations, on the example wallet unlocked and locked.\<close>

theorem export_matrix_witness:
  "export True exampleWallet =
     Inr \<lparr>chainsCount = 2, masterNodeAddress = MASTER_NODE_ADDRESS exampleWallet,
          randomAddresses = RANDOM_ADDRESSES exampleWallet\<rparr> \<and>
   export False exampleWallet = Inl ExportUnlockedNotUnsafe \<and>
   export True lockedWallet = Inl ExportLockedUnsafe \<and>
   export False lockedWallet =
     Inr \<lparr>chainsCount = 2, masterNodeAddress = MASTER_NODE_ADDRESS lockedWallet,
          randomAddresses = RANDOM_ADDRESSES lockedWallet\<rparr>"
proof -
  have e: "STATE exampleWallet = READY" "\<not> IS_LOCKED exampleWallet"
    "length (ADDRESSES exampleWallet) = 2"
    by (simp_all add: exampleWallet_eq)
  have l: "STATE lockedWallet = READY" "IS_LOCKED lockedWallet"
    "length (ADDRESSES lockedWallet) = 2"
    by (simp_all add: lockedWallet_eq)
  show ?thesis
    using export_matrix [OF e(1), of True] export_matrix [OF e(1), of False]
      export_matrix [OF l(1), of True] export_matrix [OF l(1), of False] e l
    by auto
qed

subsection \<open>C7: the balance of one address\<close>

text \<open>
  Claim C7: on a wallet that is not \<open>EMPTY\<close>, \<open>getBalance(addressHash)\<close> fails with
  the membership error, and queries nothing, when no address of \<open>allAddresses\<close> (the HD
  addresses followed by the random ones) has that hash; when one has, the call makes
  the one query for that hash and returns what the query returns (its error, if it
  fails). The second component of \<open>getBalance\<close> is the list of the queries made.
\<close>

theorem getBalance_single:
  "STATE w \<noteq> EMPTY \<Longrightarrow>
   wallet_allAddresses w = Inr (ADDRESSES w @ RANDOM_ADDRESSES w) \<and>
   (h \<notin> hash ` set (ADDRESSES w @ RANDOM_ADDRESSES w) \<longrightarrow>
      getBalance svc (Some h) w = (Inl GetBalanceForeignAddress, [])) \<and>
   (h \<in> hash ` set (ADDRESSES w @ RANDOM_ADDRESSES w) \<longrightarrow>
      getBalance svc (Some h) w =
        (case svc h of Inl e \<Rightarrow> Inl (External e) | Inr b \<Rightarrow> Inr b, [h]))"
proof -
  assume "STATE w \<noteq> EMPTY"
  then have r: "STATE w = READY" by (simp add: not_EMPTY)
  have f: "(filter (\<lambda>address. hash address = h) (ADDRESSES w @ RANDOM_ADDRESSES w) = [])
       = (h \<notin> hash ` set (ADDRESSES w @ RANDOM_ADDRESSES w))"
    by (auto simp: filter_empty_conv)
  show ?thesis
    using f by (auto simp: getBalance_def r allAddresses_READY split: sum.splits)
qed

text \<open>A known hash, a known hash whose query fails, and a foreign hash.\<close>

theorem getBalance_single_witness:
  "getBalance exampleService (Some ''Ei'') exampleWallet = (Inr 7, [''Ei'']) \<and>
   getBalance failingService (Some ''Ei'') exampleWallet = (Inl (External ''timeout''), [''Ei'']) \<and>
   getBalance exampleService (Some ''M'') exampleWallet = (Inl GetBalanceForeignAddress, [])"
proof -
  have s: "STATE exampleWallet \<noteq> EMPTY" by (simp add: exampleWallet_eq)
  show ?thesis
    using getBalance_single [OF s, of "''Ei''" exampleService]
      getBalance_single [OF s, of "''Ei''" failingService]
      getBalance_single [OF s, of "''M''" exampleService]
    by (simp add: exampleWallet_eq exampleService_def failingService_def)
qed

subsection \<open>C8: the balance of the wallet\<close>

text \<open>
  Claim C8: on a wallet that is not \<open>EMPTY\<close>, \<open>getBalance()\<close> returns the sum, over
  the addresses of \<open>allAddresses\<close>, of what the balance service returns for the hash
  of each; the result does not depend on the order of the addresses; when a query
  fails the call fails with the error of that query and returns no total.

  The code adds JavaScript numbers, and their addition rounds, so the claim holds
  only in part. What the code does, for every \<open>0\<close> and \<open>+\<close>: it queries the addresses
  from the last to the first; when every query succeeds it has queried each address
  once and returns the total it has accumulated from \<open>0\<close> by adding the results one
  by one in that order; the first query that fails ends the call with the error of
  that query, with no further query and no total; and so, when some query fails, the
  call fails with the error of a failing query.
\<close>

theorem getBalance_accumulates:
  fixes svc :: "string \<Rightarrow> thrown + 'n::{zero,plus}"
  assumes "STATE w \<noteq> EMPTY"
  shows
   "((\<forall>a\<in>set (ADDRESSES w @ RANDOM_ADDRESSES w). svc (hash a) = Inr (amount (hash a))) \<longrightarrow>
       getBalance svc None w =
         (Inr (foldl (+) 0
            (map (\<lambda>a. amount (hash a)) (rev (ADDRESSES w @ RANDOM_ADDRESSES w)))),
          rev (map hash (ADDRESSES w @ RANDOM_ADDRESSES w)))) \<and>
    (\<forall>pre a post e. ADDRESSES w @ RANDOM_ADDRESSES w = pre @ a # post \<and> svc (hash a) = Inl e \<and>
         (\<forall>b\<in>set post. \<forall>e'. svc (hash b) \<noteq> Inl e')
       \<longrightarrow> getBalance svc None w = (Inl (External e), rev (map hash post) @ [hash a])) \<and>
    ((\<exists>a\<in>set (ADDRESSES w @ RANDOM_ADDRESSES w). \<exists>e. svc (hash a) = Inl e) \<longrightarrow>
       (\<exists>a\<in>set (ADDRESSES w @ RANDOM_ADDRESSES w). \<exists>e. svc (hash a) = Inl e \<and>
          fst (getBalance svc None w) = Inl (External e)))"
proof -
  have ok: "getBalance svc None w =
         (Inr (foldl (+) 0
            (map (\<lambda>a. amount (hash a)) (rev (ADDRESSES w @ RANDOM_ADDRESSES w)))),
          rev (map hash (ADDRESSES w @ RANDOM_ADDRESSES w)))"
    if "\<forall>a\<in>set (ADDRESSES w @ RANDOM_ADDRESSES w). svc (hash a) = Inr (amount (hash a))"
    by (rule getBalance_all_foldl [OF assms that])
  have first: "getBalance svc None w = (Inl (External e), rev (map hash post) @ [hash a])"
    if d: "ADDRESSES w @ RANDOM_ADDRESSES w = pre @ a # post \<and> svc (hash a) = Inl e \<and>
         (\<forall>b\<in>set post. \<forall>e'. svc (hash b) \<noteq> Inl e')" for pre a post e
  proof -
    from d have "\<forall>b\<in>set (rev post). \<forall>e'. svc (hash b) \<noteq> Inl e'" by simp
    from queryEach_fail [OF this, of a e "rev pre" 0 "[]"] d
    show ?thesis
      by (simp add: getBalance_all [OF assms] rev_map)
  qed
  have some: "\<exists>a\<in>set (ADDRESSES w @ RANDOM_ADDRESSES w). \<exists>e. svc (hash a) = Inl e \<and>
          fst (getBalance svc None w) = Inl (External e)"
    if "\<exists>a\<in>set (ADDRESSES w @ RANDOM_ADDRESSES w). \<exists>e. svc (hash a) = Inl e"
  proof -
    from split_list_last_prop [OF that] obtain pre a post where
      s: "ADDRESSES w @ RANDOM_ADDRESSES w = pre @ a # post" and
      f: "\<exists>e. svc (hash a) = Inl e" and
      n: "\<forall>b\<in>set post. \<not> (\<exists>e. svc (hash b) = Inl e)"
      by blast
    from f obtain e where e: "svc (hash a) = Inl e" by blast
    from n have "\<forall>b\<in>set post. \<forall>e'. svc (hash b) \<noteq> Inl e'" by simp
    with s e have "getBalance svc None w = (Inl (External e), rev (map hash post) @ [hash a])"
      by (intro first) simp
    then have "fst (getBalance svc None w) = Inl (External e)" by simp
    moreover have "a \<in> set (ADDRESSES w @ RANDOM_ADDRESSES w)"
      by (simp only: s) simp
    ultimately show ?thesis using e by blast
  qed
  show ?thesis
    using ok first some by blast
qed

text \<open>Three addresses with balances 5, 7 and 30; then the query of the second failing.\<close>

theorem getBalance_accumulates_witness:
  "getBalance numberService None exampleWallet = (Inr (Number 42), [''H-k1'', ''Ei'', ''E'']) \<and>
   getBalance failingNumberService None exampleWallet
     = (Inl (External ''timeout''), [''H-k1'', ''Ei''])"
proof -
  have s: "STATE exampleWallet \<noteq> EMPTY" by (simp add: exampleWallet_eq)
  have ok: "\<forall>a\<in>set (ADDRESSES exampleWallet @ RANDOM_ADDRESSES exampleWallet).
      numberService (hash a) = Inr (numberAmount (hash a))"
    by (simp add: exampleWallet_eq numberService_def exampleService_def numberAmount_def
        exampleAmount_def)
  have d: "ADDRESSES exampleWallet @ RANDOM_ADDRESSES exampleWallet =
      [hd (ADDRESSES exampleWallet)] @ (ADDRESSES exampleWallet ! 1) # RANDOM_ADDRESSES exampleWallet \<and>
    failingNumberService (hash (ADDRESSES exampleWallet ! 1)) = Inl ''timeout'' \<and>
    (\<forall>b\<in>set (RANDOM_ADDRESSES exampleWallet). \<forall>e'. failingNumberService (hash b) \<noteq> Inl e')"
    by (simp add: exampleWallet_eq failingNumberService_def numberService_def exampleService_def)
  have t: "getBalance numberService None exampleWallet =
      (Inr (foldl (+) 0 (map (\<lambda>a. numberAmount (hash a))
         (rev (ADDRESSES exampleWallet @ RANDOM_ADDRESSES exampleWallet)))),
       rev (map hash (ADDRESSES exampleWallet @ RANDOM_ADDRESSES exampleWallet)))"
    using getBalance_accumulates [OF s, of numberService numberAmount] ok by blast
  have v: "foldl (+) 0 (map (\<lambda>a. numberAmount (hash a))
         (rev (ADDRESSES exampleWallet @ RANDOM_ADDRESSES exampleWallet))) = Number 42"
    "rev (map hash (ADDRESSES exampleWallet @ RANDOM_ADDRESSES exampleWallet)) = [''H-k1'', ''Ei'', ''E'']"
    by (simp_all add: exampleWallet_eq numberAmount_def exampleAmount_def number_small_sums)
  have 1: "getBalance numberService None exampleWallet = (Inr (Number 42), [''H-k1'', ''Ei'', ''E''])"
    by (simp only: t v)
  have u: "getBalance failingNumberService None exampleWallet =
      (Inl (External ''timeout''),
       rev (map hash (RANDOM_ADDRESSES exampleWallet)) @ [hash (ADDRESSES exampleWallet ! 1)])"
    using getBalance_accumulates [OF s, of failingNumberService numberAmount] d by blast
  have x: "rev (map hash (RANDOM_ADDRESSES exampleWallet)) @ [hash (ADDRESSES exampleWallet ! 1)]
      = [''H-k1'', ''Ei'']"
    by (simp add: exampleWallet_eq)
  have 2: "getBalance failingNumberService None exampleWallet
      = (Inl (External ''timeout''), [''H-k1'', ''Ei''])"
    by (simp only: u x)
  show ?thesis using 1 2 by simp
qed

text \<open>
  The claim as stated fails on \<open>walletQ\<close>: the four queries return 0, 1, 1 and
  \<open>2 ^ 53\<close>, whose sum \<open>2 ^ 53 + 2\<close> is a double, and the call returns \<open>2 ^ 53\<close>, since
  \<open>2 ^ 53 + 1\<close> rounds to \<open>2 ^ 53\<close> twice. \<open>walletP\<close> holds the same addresses in
  another order and the call returns \<open>2 ^ 53 + 2\<close> there.
\<close>

theorem getBalance_sum_counterexample:
  "STATE walletP \<noteq> EMPTY \<and> STATE walletQ \<noteq> EMPTY \<and>
   mset (ADDRESSES walletQ @ RANDOM_ADDRESSES walletQ)
     = mset (ADDRESSES walletP @ RANDOM_ADDRESSES walletP) \<and>
   map (\<lambda>a. roundingService (hash a)) (ADDRESSES walletQ @ RANDOM_ADDRESSES walletQ)
     = [Inr (Number 0), Inr (Number 1), Inr (Number 1), Inr (Number 9007199254740992)] \<and>
   (0 + 1 + 1 + 9007199254740992 :: int) = 9007199254740994 \<and>
   roundDouble 9007199254740992 = 9007199254740992 \<and>
   roundDouble 9007199254740994 = 9007199254740994 \<and>
   fst (getBalance roundingService None walletQ) = Inr (Number 9007199254740992) \<and>
   fst (getBalance roundingService None walletP) = Inr (Number 9007199254740994) \<and>
   fst (getBalance roundingService None walletQ) \<noteq> fst (getBalance roundingService None walletP)"
proof -
  have m: "mset (ADDRESSES walletQ @ RANDOM_ADDRESSES walletQ)
     = mset (ADDRESSES walletP @ RANDOM_ADDRESSES walletP)"
    by (simp add: walletP_eq walletQ_eq)
  have s: "map (\<lambda>a. roundingService (hash a)) (ADDRESSES walletQ @ RANDOM_ADDRESSES walletQ)
     = [Inr (Number 0), Inr (Number 1), Inr (Number 1), Inr (Number 9007199254740992)]"
    by (simp add: walletQ_eq roundingService_def)
  have r: "roundDouble 9007199254740992 = 9007199254740992"
    "roundDouble 9007199254740994 = 9007199254740994"
    by (simp_all add: roundDouble_values)
  show ?thesis
    using m s r by (simp add: getBalance_walletP getBalance_walletQ walletP_eq walletQ_eq)
qed

subsection \<open>C9: generate\<close>

text \<open>
  Claim C9: on an \<open>EMPTY\<close> wallet and for \<open>chainsCount \<ge> 1\<close>, a successful \<open>generate\<close>
  derives \<open>chainsCount\<close> addresses from the private key of the master node, under the
  wallet index \<open>WALLET_INDEX\<close> and the chain indices \<open>0\<close> to \<open>chainsCount - 1\<close>, and
  appends them in that order; it stores the master node address with a null label; the
  state is \<open>READY\<close> afterwards. On a \<open>READY\<close> wallet \<open>generate\<close> fails with the state
  error and changes nothing.
\<close>

theorem generate_chains:
  "(STATE w = READY \<longrightarrow> generate el mnemonic mnemonicExtension n w = (Inl GenerateOnReady, w)) \<and>
   (STATE w = EMPTY \<and> 1 \<le> n \<and> generate el mnemonic mnemonicExtension n w = (Inr (), w') \<longrightarrow>
      (\<exists>m master ds.
         (mnemonic = Some m \<or> mnemonic = None \<and> getRandomMnemonic el = Inr m) \<and>
         getMasterNodeAddressFromMnemonic el m mnemonicExtension = Inr master \<and>
         MASTER_NODE_ADDRESS w' = Some (withNullLabel master) \<and>
         label (withNullLabel master) = None \<and>
         privateKey (withNullLabel master) = privateKey master \<and>
         length ds = nat n \<and>
         (\<forall>j<nat n. getDerivedChainFromMasterNodePrivateKey el (privateKey master) WALLET_INDEX
              (int j) = Inr (ds ! j)) \<and>
         ADDRESSES w' = ADDRESSES w @ map withNullLabel ds \<and>
         STATE w' = READY))"
proof (intro conjI impI)
  assume "STATE w = READY"
  then show "generate el mnemonic mnemonicExtension n w = (Inl GenerateOnReady, w)"
    by (simp add: generate_def)
next
  assume h: "STATE w = EMPTY \<and> 1 \<le> n \<and>
    generate el mnemonic mnemonicExtension n w = (Inr (), w')"
  then have e: "STATE w \<noteq> READY" by simp
  from h e obtain m w1 master as where
    m: "mnemonic = Some m \<and> w1 = w \<or>
        mnemonic = None \<and> getRandomMnemonic el = Inr m \<and> w1 = w\<lparr>MNEMONIC := Some m\<rparr>" and
    ma: "getMasterNodeAddressFromMnemonic el m mnemonicExtension = Inr master" and
    ch: "generateChains el (privateKey master) (- 1) n (ADDRESSES w1) = (None, as)" and
    w': "w' = w1\<lparr>MASTER_NODE_ADDRESS := Some (withNullLabel master), ADDRESSES := as,
                 STATE := READY\<rparr>"
    by (auto simp: generate_def split: option.splits sum.splits if_splits prod.splits)
  from generateChains_ok [OF ch] obtain ds where
    l: "length ds = nat (n - (- 1 + 1))" and
    d: "\<forall>j<length ds. getDerivedChainFromMasterNodePrivateKey el (privateKey master) WALLET_INDEX
          (- 1 + 1 + int j) = Inr (ds ! j)" and
    a: "as = ADDRESSES w1 @ map withNullLabel ds"
    by blast
  have aw: "ADDRESSES w1 = ADDRESSES w" using m by auto
  have "mnemonic = Some m \<or> mnemonic = None \<and> getRandomMnemonic el = Inr m"
    using m by auto
  moreover have "MASTER_NODE_ADDRESS w' = Some (withNullLabel master)" by (simp add: w')
  moreover have "label (withNullLabel master) = None"
    "privateKey (withNullLabel master) = privateKey master"
    by (simp_all add: withNullLabel_def)
  moreover have "length ds = nat n" using l by simp
  moreover have "\<forall>j<nat n. getDerivedChainFromMasterNodePrivateKey el (privateKey master)
      WALLET_INDEX (int j) = Inr (ds ! j)"
    using d l by simp
  moreover have "ADDRESSES w' = ADDRESSES w @ map withNullLabel ds"
    by (simp add: w' a aw)
  moreover have "STATE w' = READY" by (simp add: w')
  ultimately show "\<exists>m master ds.
         (mnemonic = Some m \<or> mnemonic = None \<and> getRandomMnemonic el = Inr m) \<and>
         getMasterNodeAddressFromMnemonic el m mnemonicExtension = Inr master \<and>
         MASTER_NODE_ADDRESS w' = Some (withNullLabel master) \<and>
         label (withNullLabel master) = None \<and>
         privateKey (withNullLabel master) = privateKey master \<and>
         length ds = nat n \<and>
         (\<forall>j<nat n. getDerivedChainFromMasterNodePrivateKey el (privateKey master) WALLET_INDEX
              (int j) = Inr (ds ! j)) \<and>
         ADDRESSES w' = ADDRESSES w @ map withNullLabel ds \<and>
         STATE w' = READY"
    using ma by blast
qed

text \<open>Three chains from a fresh mnemonic on a new wallet; then on a wallet that is ready.\<close>

theorem generate_chains_witness:
  "fst (generate exampleElectra None None 3 (initial :: unit Wallet)) = Inr () \<and>
   length (ADDRESSES (snd (generate exampleElectra None None 3 (initial :: unit Wallet)))) = 3 \<and>
   STATE (snd (generate exampleElectra None None 3 (initial :: unit Wallet))) = READY \<and>
   fst (generate exampleElectra None None 3 exampleWallet) = Inl GenerateOnReady"
proof -
  obtain w' :: "unit Wallet" where
    g: "generate exampleElectra None None 3 (initial :: unit Wallet) = (Inr (), w')"
    using generate_example by blast
  have i: "STATE (initial :: unit Wallet) = EMPTY" "ADDRESSES (initial :: unit Wallet) = []"
    by (simp_all add: initial_def)
  have r: "STATE exampleWallet = READY" by (simp add: exampleWallet_eq)
  from generate_chains [of initial exampleElectra None None 3 w'] i g
  obtain ds where "length ds = nat 3" "ADDRESSES w' = map withNullLabel ds" "STATE w' = READY"
    by auto
  moreover have "fst (generate exampleElectra None None 3 exampleWallet) = Inl GenerateOnReady"
    using generate_chains [of exampleWallet exampleElectra None None 3] r by simp
  ultimately show ?thesis by (simp add: g)
qed

subsection \<open>C10: the second master-node guard of importRandomAddress\<close>

text \<open>
  Claim C10: the guard inside the master-node branch of \<open>importRandomAddress\<close> never
  fires. Whenever the first half of the method succeeds with \<open>isHDMasterNode\<close> set,
  the wallet has no master node address, so the guard evaluates to false; the method
  never throws the error of that guard; and a call with \<open>isHDMasterNode\<close> on a wallet
  that has a master node is refused by the guard at the entry.
\<close>

theorem import_inner_guard_unreachable:
  "fst (importRandomAddress cr el address passphrase isHDMasterNode w)
     \<noteq> Inl ImportAnotherMasterNode \<and>
   (importPrepare cr el address passphrase True w = Inr address' \<longrightarrow>
      MASTER_NODE_ADDRESS w = None \<and> importInnerGuard w = Inr False) \<and>
   (isHDMasterNode \<and> MASTER_NODE_ADDRESS w \<noteq> None \<longrightarrow>
      importRandomAddress cr el address passphrase isHDMasterNode w
        = (Inl ImportMasterNodeExists, w))"
proof -
  have never: "fst (importRandomAddress cr el address passphrase isHDMasterNode w)
     \<noteq> Inl ImportAnotherMasterNode"
    by (auto simp: importRandomAddress_def importPrepare_def importInnerGuard_def
        wallet_isHD_def wallet_state_def split: sum.splits option.splits if_splits bool.splits)
  have reach: "MASTER_NODE_ADDRESS w = None \<and> importInnerGuard w = Inr False"
    if p: "importPrepare cr el address passphrase True w = Inr address'"
  proof -
    from p have "MASTER_NODE_ADDRESS w = None"
      by (auto simp: importPrepare_def split: if_splits)
    then show ?thesis
      by (simp add: importInnerGuard_def wallet_isHD_def wallet_state_def)
  qed
  have entry: "importRandomAddress cr el address passphrase isHDMasterNode w
        = (Inl ImportMasterNodeExists, w)"
    if "isHDMasterNode \<and> MASTER_NODE_ADDRESS w \<noteq> None"
    using that by (simp add: importRandomAddress_def importPrepare_def)
  show ?thesis
    using never reach entry by blast
qed

text \<open>A second master node on the example wallet; a first one on a new wallet.\<close>

theorem import_inner_guard_unreachable_witness:
  "importRandomAddress exampleCrypto exampleElectra importedAddress None True exampleWallet
     = (Inl ImportMasterNodeExists, exampleWallet) \<and>
   importPrepare exampleCrypto exampleElectra importedAddress None True (initial :: unit Wallet)
     = Inr (importedAddress\<lparr>hash := ''H-k1''\<rparr>) \<and>
   importInnerGuard (initial :: unit Wallet) = Inr False"
proof -
  have m: "MASTER_NODE_ADDRESS exampleWallet \<noteq> None" by (simp add: exampleWallet_eq)
  have p: "importPrepare exampleCrypto exampleElectra importedAddress None True
      (initial :: unit Wallet) = Inr (importedAddress\<lparr>hash := ''H-k1''\<rparr>)"
    by (simp add: importPrepare_def initial_def importedAddress_def exampleElectra_def)
  show ?thesis
    using import_inner_guard_unreachable [of exampleCrypto exampleElectra importedAddress None
        True exampleWallet] m
      import_inner_guard_unreachable [of exampleCrypto exampleElectra importedAddress None
        True "initial :: unit Wallet" "importedAddress\<lparr>hash := ''H-k1''\<rparr>"] p
    by simp
qed

end
